theory Spec2Isabelle
  imports Main
begin

section \<open>The packaging script \<^verbatim>\<open>setup.py\<close> of the mortgage calculator\<close>

text \<open>
  The script reads \<^verbatim>\<open>README.md\<close> and \<^verbatim>\<open>requirements.txt\<close>, builds the list
  \<^verbatim>\<open>requirements\<close> from the lines of the second file and passes everything to one call
  of \<^verbatim>\<open>setuptools.setup\<close>. The model below follows the script statement by statement:
  opening and decoding a file can fail, so the script returns either an error or the keyword
  arguments that \<^verbatim>\<open>setup\<close> receives.
\<close>

subsection \<open>Python strings\<close>

text \<open>
  Both files are opened in text mode with \<^verbatim>\<open>encoding="utf-8"\<close>, so the script works on
  \<^verbatim>\<open>str\<close> values: sequences of Unicode code points, not bytes. A code point is a natural
  number; a literal of the script is written \<open>str_of ''...''\<close>.
\<close>

type_synonym codepoint = nat
type_synonym str = "codepoint list"

definition str_of :: "string \<Rightarrow> str" where
  "str_of s = map of_char s"

abbreviation LF :: codepoint where "LF \<equiv> 0x0A"
abbreviation CR :: codepoint where "CR \<equiv> 0x0D"

text \<open>
  \<^verbatim>\<open>str.isspace\<close> on one character: the code points CPython treats as whitespace
  (bidirectional class WS, B or S, or general category Zs).
\<close>

definition isspace :: "codepoint \<Rightarrow> bool" where
  "isspace c =
     (c \<in> set [0x09, 0x0A, 0x0B, 0x0C, 0x0D, 0x1C, 0x1D, 0x1E, 0x1F, 0x20, 0x85, 0xA0, 0x1680]
      \<or> (0x2000 \<le> c \<and> c \<le> 0x200A)
      \<or> c \<in> set [0x2028, 0x2029, 0x202F, 0x205F, 0x3000])"

text \<open>
  \<^verbatim>\<open>str.strip()\<close> without an argument removes the longest run of whitespace at the left
  end and then the longest run at the right end of what is left.
\<close>

definition lstrip :: "str \<Rightarrow> str" where
  "lstrip s = dropWhile isspace s"

definition rstrip :: "str \<Rightarrow> str" where
  "rstrip s = rev (dropWhile isspace (rev s))"

definition strip :: "str \<Rightarrow> str" where
  "strip s = rstrip (lstrip s)"

text \<open>\<^verbatim>\<open>s.startswith(p)\<close>: the first \<open>length p\<close> characters of \<open>s\<close> are \<open>p\<close>.\<close>

definition startswith :: "str \<Rightarrow> str \<Rightarrow> bool" where
  "startswith s p = (take (length p) s = p)"

text \<open>A string in a boolean context is true when it is not empty.\<close>

definition truthy :: "str \<Rightarrow> bool" where
  "truthy s = (s \<noteq> [])"

subsection \<open>Text files\<close>

text \<open>
  With the default \<^verbatim>\<open>newline=None\<close> a text file is read with universal newlines:
  \<^verbatim>\<open>"\r\n"\<close> and a lone \<^verbatim>\<open>"\r"\<close> both arrive as \<^verbatim>\<open>"\n"\<close>.
\<close>

fun universal_newlines :: "str \<Rightarrow> str" where
  "universal_newlines [] = []"
| "universal_newlines [c] = (if c = CR then [LF] else [c])"
| "universal_newlines (c # d # cs) =
     (if c = CR \<and> d = LF then LF # universal_newlines cs
      else if c = CR then LF # universal_newlines (d # cs)
      else c # universal_newlines (d # cs))"

text \<open>
  \<^verbatim>\<open>for line in fh\<close> yields the text cut after every \<^verbatim>\<open>"\n"\<close>; each line keeps its
  newline, and a last line without one is yielded as it is. An empty file yields nothing.
\<close>

fun split_lines :: "str \<Rightarrow> str list" where
  "split_lines [] = []"
| "split_lines (c # cs) =
     (if c = LF then [LF] # split_lines cs
      else (case split_lines cs of [] \<Rightarrow> [[c]] | l # ls \<Rightarrow> (c # l) # ls))"

definition read_text :: "str \<Rightarrow> str" where
  "read_text decoded = universal_newlines decoded"

definition file_lines :: "str \<Rightarrow> str list" where
  "file_lines decoded = split_lines (universal_newlines decoded)"

text \<open>
  Opening a file raises \<^verbatim>\<open>OSError\<close> (for instance \<^verbatim>\<open>FileNotFoundError\<close>) and decoding it
  raises \<^verbatim>\<open>UnicodeDecodeError\<close>. The file system is a parameter of the script: for each
  path, the error that reading it raises or its decoded text.
\<close>

datatype error = OSError | UnicodeDecodeError

type_synonym files = "string \<Rightarrow> error + str"

subsection \<open>Slices\<close>

text \<open>
  \<^verbatim>\<open>xs[start:stop]\<close> with an omitted or integer bound: a negative bound counts from the
  end, and every bound is clamped to the list, so a slice never raises.
\<close>

definition slice_index :: "nat \<Rightarrow> int \<Rightarrow> nat" where
  "slice_index n i = (if i < 0 then nat (max 0 (i + int n)) else min (nat i) n)"

definition py_slice :: "'a list \<Rightarrow> int option \<Rightarrow> int option \<Rightarrow> 'a list" where
  "py_slice xs start stop =
     (let n = length xs;
          i = (case start of None \<Rightarrow> 0 | Some s \<Rightarrow> slice_index n s);
          j = (case stop of None \<Rightarrow> n | Some e \<Rightarrow> slice_index n e)
      in take (j - i) (drop i xs))"

subsection \<open>The script\<close>

text \<open>
  Line 11:
  \<^verbatim>\<open>requirements = [line.strip() for line in fh if line.strip() and not line.startswith("#")]\<close>
\<close>

definition requirements_of_lines :: "str list \<Rightarrow> str list" where
  "requirements_of_lines ls =
     [strip line. line \<leftarrow> ls, truthy (strip line) \<and> \<not> startswith line (str_of ''#'')]"

definition requirements :: "str \<Rightarrow> str list" where
  "requirements decoded = requirements_of_lines (file_lines decoded)"

text \<open>The keyword arguments of the call of \<^verbatim>\<open>setup\<close>, lines 13 to 45.\<close>

record setup_kwargs =
  name :: str
  version :: str
  author :: str
  description :: str
  long_description :: str
  long_description_content_type :: str
  url :: str
  packages :: "str list"
  classifiers :: "str list"
  python_requires :: str
  install_requires :: "str list"
  extras_require :: "(str \<times> str list) list"
  entry_points :: "(str \<times> str list) list"

text \<open>
  \<^verbatim>\<open>find_packages()\<close> is a function of setuptools that scans the working directory; its
  result is the parameter \<open>found\<close>.
\<close>

definition setup_call :: "str \<Rightarrow> str list \<Rightarrow> str list \<Rightarrow> setup_kwargs" where
  "setup_call readme found reqs =
     \<lparr> name = str_of ''mortgage-calculator'',
       version = str_of ''1.0.0'',
       author = str_of ''Mortgage Calculator Team'',
       description = str_of ''A production-ready mortgage calculator application'',
       long_description = readme,
       long_description_content_type = str_of ''text/markdown'',
       url = str_of ''https://github.com/yourusername/mortgage-calculator'',
       packages = found,
       classifiers =
         [str_of ''Development Status :: 5 - Production/Stable'',
          str_of ''Intended Audience :: End Users/Desktop'',
          str_of ''Intended Audience :: Financial and Insurance Industry'',
          str_of ''Topic :: Office/Business :: Financial'',
          str_of ''Programming Language :: Python :: 3'',
          str_of ''Programming Language :: Python :: 3.8'',
          str_of ''Programming Language :: Python :: 3.9'',
          str_of ''Programming Language :: Python :: 3.10'',
          str_of ''Programming Language :: Python :: 3.11'',
          str_of ''License :: OSI Approved :: MIT License'',
          str_of ''Operating System :: OS Independent''],
       python_requires = str_of ''>=3.8'',
       install_requires = py_slice reqs None (Some 3),
       extras_require = [(str_of ''dev'', py_slice reqs (Some 3) None)],
       entry_points =
         [(str_of ''console_scripts'', [str_of ''mortgage-calculator=main:main''])] \<rparr>"

text \<open>
  The whole script: the first failing read ends it with that error, before \<^verbatim>\<open>setup\<close> is
  called.
\<close>

definition setup_py :: "files \<Rightarrow> str list \<Rightarrow> error + setup_kwargs" where
  "setup_py fs found =
     (case fs ''README.md'' of
        Inl e \<Rightarrow> Inl e
      | Inr readme \<Rightarrow>
          (case fs ''requirements.txt'' of
             Inl e \<Rightarrow> Inl e
           | Inr reqs \<Rightarrow> Inr (setup_call (read_text readme) found (requirements reqs))))"

section \<open>Slices of a list\<close>

lemma take_min_length: "take (min k (length xs)) xs = take k xs"
  by (cases "k \<le> length xs") (simp_all add: min_def)

lemma drop_min_length: "drop (min k (length xs)) xs = drop k xs"
  by (cases "k \<le> length xs") (simp_all add: min_def)

lemma py_slice_prefix: "py_slice xs None (Some (int k)) = take k xs"
  by (simp add: py_slice_def slice_index_def take_min_length)

lemma py_slice_suffix: "py_slice xs (Some (int k)) None = drop k xs"
  by (simp add: py_slice_def slice_index_def drop_min_length)

lemma py_slice_split:
  "py_slice xs None (Some (int k)) @ py_slice xs (Some (int k)) None = xs"
  by (simp add: py_slice_prefix py_slice_suffix)

section \<open>Running the script\<close>

text \<open>
  \<^verbatim>\<open>setup\<close> is called exactly when both files can be read, with the text of the first
  and the requirements parsed from the second; otherwise the script ends with the error of
  the first read that fails.
\<close>

lemma setup_py_called:
  "fs ''README.md'' = Inr readme \<Longrightarrow> fs ''requirements.txt'' = Inr reqs \<Longrightarrow>
   setup_py fs found = Inr (setup_call (read_text readme) found (requirements reqs))"
  by (simp add: setup_py_def)

lemma setup_py_no_readme: "fs ''README.md'' = Inl e \<Longrightarrow> setup_py fs found = Inl e"
  by (simp add: setup_py_def)

lemma setup_py_no_requirements:
  "fs ''README.md'' = Inr readme \<Longrightarrow> fs ''requirements.txt'' = Inl e \<Longrightarrow>
   setup_py fs found = Inl e"
  by (simp add: setup_py_def)

lemma setup_py_fails_iff:
  "isl (setup_py fs found) \<longleftrightarrow> isl (fs ''README.md'') \<or> isl (fs ''requirements.txt'')"
  by (simp add: setup_py_def split: sum.splits)

section \<open>The two dependency groups\<close>

text \<open>
  C10. \<^verbatim>\<open>install_requires\<close> and the \<^verbatim>\<open>"dev"\<close> extra partition the requirements list:
  \<^verbatim>\<open>install_requires\<close> is its first \<open>min 3 (length reqs)\<close> entries, \<^verbatim>\<open>extras_require\<close> has
  the one key \<^verbatim>\<open>"dev"\<close> with all the remaining entries, and the first group followed by the
  second is the whole list, so no entry is in both groups and none is dropped.
\<close>

theorem requirements_partition:
  "install_requires (setup_call readme found reqs) = take (min 3 (length reqs)) reqs
   \<and> length (install_requires (setup_call readme found reqs)) = min 3 (length reqs)
   \<and> extras_require (setup_call readme found reqs)
       = [(str_of ''dev'', drop (min 3 (length reqs)) reqs)]
   \<and> (\<exists>dev. map_of (extras_require (setup_call readme found reqs)) (str_of ''dev'') = Some dev
         \<and> install_requires (setup_call readme found reqs) @ dev = reqs
         \<and> length (install_requires (setup_call readme found reqs)) + length dev = length reqs)"
proof -
  have three: "(3::int) = int 3"
    by simp
  have pre: "py_slice reqs None (Some 3) = take 3 reqs"
    unfolding three by (rule py_slice_prefix)
  have suf: "py_slice reqs (Some 3) None = drop 3 reqs"
    unfolding three by (rule py_slice_suffix)
  have t: "take (min 3 (length reqs)) reqs = take 3 reqs"
    by (rule take_min_length)
  have d: "drop (min 3 (length reqs)) reqs = drop 3 reqs"
    by (rule drop_min_length)
  have len: "min (length reqs) 3 + (length reqs - 3) = length reqs"
    by (simp add: min_def)
  show ?thesis
    unfolding t d by (simp add: setup_call_def pre suf len min.commute)
qed

section \<open>Reading lines\<close>

text \<open>
  The lines of a file are a cutting of its text: put together again they are the text, none of
  them is empty, a newline is only ever the last character of a line, and after the
  translation of newlines no carriage return is left.
\<close>

lemma concat_split_lines: "concat (split_lines s) = s"
  by (induction s) (auto split: list.splits)

lemma split_lines_nonempty: "l \<in> set (split_lines s) \<Longrightarrow> l \<noteq> []"
  by (induction s arbitrary: l) (auto split: list.splits if_splits)

lemma split_lines_LF_last: "l \<in> set (split_lines s) \<Longrightarrow> LF \<notin> set (butlast l)"
  by (induction s arbitrary: l) (auto split: list.splits if_splits)

lemma universal_newlines_no_CR: "CR \<notin> set (universal_newlines s)"
  by (induction s rule: universal_newlines.induct) auto

section \<open>Stripping whitespace\<close>

lemma rstrip_decomp: "t = rstrip t @ rev (takeWhile isspace (rev t))"
proof -
  have "rstrip t @ rev (takeWhile isspace (rev t))
      = rev (takeWhile isspace (rev t) @ dropWhile isspace (rev t))"
    by (simp only: rstrip_def rev_append)
  also have "\<dots> = t"
    by (simp only: takeWhile_dropWhile_id rev_rev_ident)
  finally show ?thesis
    by (rule sym)
qed

lemma strip_decomp:
  "s = takeWhile isspace s @ strip s @ rev (takeWhile isspace (rev (lstrip s)))"
proof -
  have "s = takeWhile isspace s @ lstrip s"
    by (simp add: lstrip_def)
  also have "lstrip s = strip s @ rev (takeWhile isspace (rev (lstrip s)))"
    unfolding strip_def by (rule rstrip_decomp)
  finally show ?thesis .
qed

text \<open>What \<open>strip\<close> removes is whitespace, at the two ends.\<close>

lemma strip_removes_whitespace:
  "\<exists>a b. s = a @ strip s @ b \<and> list_all isspace a \<and> list_all isspace b"
proof -
  have a: "list_all isspace (takeWhile isspace s)"
    by (auto simp: list_all_iff dest: set_takeWhileD)
  have b: "list_all isspace (rev (takeWhile isspace (rev (lstrip s))))"
    by (auto simp: list_all_iff dest: set_takeWhileD)
  from strip_decomp [of s] a b show ?thesis
    by blast
qed

text \<open>What \<open>strip\<close> leaves neither starts nor ends with whitespace.\<close>

lemma strip_first: "strip s \<noteq> [] \<Longrightarrow> \<not> isspace (hd (strip s))"
proof -
  assume ne: "strip s \<noteq> []"
  have d: "lstrip s = strip s @ rev (takeWhile isspace (rev (lstrip s)))"
    unfolding strip_def by (rule rstrip_decomp)
  from ne d have h: "hd (lstrip s) = hd (strip s)"
    by (metis hd_append2)
  from ne d have "lstrip s \<noteq> []"
    by auto
  then have "\<not> isspace (hd (lstrip s))"
    unfolding lstrip_def by (rule hd_dropWhile)
  with h show ?thesis
    by simp
qed

lemma strip_last: "strip s \<noteq> [] \<Longrightarrow> \<not> isspace (last (strip s))"
proof -
  assume ne: "strip s \<noteq> []"
  let ?u = "dropWhile isspace (rev (lstrip s))"
  from ne have u: "?u \<noteq> []"
    by (simp add: strip_def rstrip_def)
  then have "\<not> isspace (hd ?u)"
    by (rule hd_dropWhile)
  moreover from u have "last (strip s) = hd ?u"
    by (simp add: strip_def rstrip_def last_rev)
  ultimately show ?thesis
    by simp
qed

text \<open>A line strips to the empty string exactly when it is blank.\<close>

lemma strip_blank: "strip s = [] \<longleftrightarrow> list_all isspace s"
proof
  assume "strip s = []"
  with strip_removes_whitespace [of s] show "list_all isspace s"
    by auto
next
  assume "list_all isspace s"
  then have d: "dropWhile isspace s = []"
    by (simp add: list_all_iff)
  show "strip s = []"
    unfolding strip_def lstrip_def rstrip_def d by simp
qed

lemma startswith_hash: "startswith line (str_of ''#'') \<longleftrightarrow> (\<exists>rest. line = 0x23 # rest)"
  by (cases line) (auto simp: startswith_def str_of_def)

section \<open>The requirements list\<close>

lemma requirements_of_lines_filter:
  "requirements_of_lines ls =
     map strip (filter (\<lambda>line. strip line \<noteq> [] \<and> \<not> startswith line (str_of ''#'')) ls)"
  by (induction ls) (simp_all add: requirements_of_lines_def truthy_def)

text \<open>
  The test for a comment looks at the line as read, before stripping. A \<^verbatim>\<open>#\<close> that follows
  indentation is therefore not seen, and the line is kept, stripped.
\<close>

lemma not_isspace_hash: "\<not> isspace 0x23"
  by (simp add: isspace_def)

lemma lstrip_indented: "list_all isspace ws \<Longrightarrow> lstrip (ws @ 0x23 # body) = 0x23 # body"
  by (simp add: lstrip_def list_all_iff dropWhile_append2 not_isspace_hash)

lemma strip_hash_nonempty: "strip (0x23 # body) \<noteq> []"
  by (simp add: strip_blank not_isspace_hash)

lemma indented_comment_kept:
  assumes "ws \<noteq> []" and "list_all isspace ws"
  shows "requirements_of_lines [ws @ 0x23 # body] = [strip (0x23 # body)]"
proof -
  have l: "lstrip (0x23 # body) = 0x23 # body"
    using lstrip_indented [of "[]" body] by simp
  have s: "strip (ws @ 0x23 # body) = strip (0x23 # body)"
    by (simp add: strip_def lstrip_indented [OF assms(2)] l)
  from assms obtain c cs where ws: "ws = c # cs" and c: "isspace c"
    by (cases ws) auto
  from c not_isspace_hash have "c \<noteq> 0x23"
    by auto
  then have "\<not> startswith (ws @ 0x23 # body) (str_of ''#'')"
    by (simp add: ws startswith_def str_of_def)
  then show ?thesis
    by (simp add: requirements_of_lines_def truthy_def s strip_hash_nonempty)
qed

text \<open>
  C9. The list \<^verbatim>\<open>requirements\<close> holds, in the order of the file, exactly the lines of
  \<^verbatim>\<open>requirements.txt\<close> that are not empty once stripped and that, as read, do not start with
  \<^verbatim>\<open>#\<close>, each of them stripped of the whitespace around it. In particular the indented
  comment line \<^verbatim>\<open>"  # dev deps"\<close> is not filtered out: in the file
  \<^verbatim>\<open>"flask\n  # dev deps\n# pins\n\n pytest "\<close> the comment in the first column and the blank
  line go, and the indented comment stays as the entry \<^verbatim>\<open>"# dev deps"\<close>.
\<close>

theorem requirements_kept_lines:
  "requirements decoded =
     map strip
       (filter (\<lambda>line. strip line \<noteq> [] \<and> \<not> startswith line (str_of ''#''))
          (file_lines decoded))
   \<and> requirements_of_lines [str_of ''  # dev deps'' @ [LF]] = [str_of ''# dev deps'']
   \<and> requirements
         (str_of ''flask'' @ [LF] @ str_of ''  # dev deps'' @ [LF] @ str_of ''# pins''
            @ [LF, LF] @ str_of '' pytest '')
       = [str_of ''flask'', str_of ''# dev deps'', str_of ''pytest'']"
proof -
  have general: "requirements decoded =
     map strip
       (filter (\<lambda>line. strip line \<noteq> [] \<and> \<not> startswith line (str_of ''#''))
          (file_lines decoded))"
    unfolding requirements_def by (rule requirements_of_lines_filter)
  have one: "requirements_of_lines [str_of ''  # dev deps'' @ [LF]] = [str_of ''# dev deps'']"
    by (simp add: requirements_of_lines_def strip_def lstrip_def rstrip_def
        startswith_def truthy_def str_of_def isspace_def)
  have whole: "requirements
         (str_of ''flask'' @ [LF] @ str_of ''  # dev deps'' @ [LF] @ str_of ''# pins''
            @ [LF, LF] @ str_of '' pytest '')
       = [str_of ''flask'', str_of ''# dev deps'', str_of ''pytest'']"
    by (simp add: requirements_def file_lines_def requirements_of_lines_def strip_def
        lstrip_def rstrip_def startswith_def truthy_def str_of_def isspace_def)
  from general one whole show ?thesis
    by (intro conjI)
qed

end
